theory Spec2Isabelle
  imports Complex_Main "HOL-Library.AList" "HOL-Library.Multiset"
begin

section \<open>The type \<^verbatim>\<open>float64\<close>\<close>

text \<open>
  A \<^verbatim>\<open>float64\<close> is a finite number, an infinity or NaN. The finite values are kept as
  rationals (the two zeros are one value); what makes them \<^verbatim>\<open>float64\<close> is that every
  operation below rounds its exact result to the nearest number with a significand of
  53 bits, ties to the even significand, as IEEE 754 does.
\<close>

datatype float64 = Finite rat | PInf | NInf | NaN

function bitlength :: "int \<Rightarrow> int" where
  "bitlength n = (if n \<le> 0 then 0 else 1 + bitlength (n div 2))"
  by pat_completeness auto
termination
  by (relation "measure nat") auto

text \<open>For positive \<open>n\<close> and \<open>d\<close>, the exponent \<open>e\<close> with \<open>2 ^ e \<le> n / d < 2 ^ (e + 1)\<close>.\<close>

definition floor_log2 :: "int \<Rightarrow> int \<Rightarrow> int" where
  "floor_log2 n d =
     (let k = bitlength n - bitlength d
      in if (if 0 \<le> k then d * 2 ^ nat k \<le> n else d \<le> n * 2 ^ nat (- k)) then k else k - 1)"

text \<open>The integer nearest to \<open>n / d\<close>, the even one of two that are equally near.\<close>

definition round_half_even :: "int \<Rightarrow> int \<Rightarrow> int" where
  "round_half_even n d =
     (let q = n div d; r = n mod d
      in if d < 2 * r \<or> (2 * r = d \<and> odd q) then q + 1 else q)"

text \<open>
  The \<^verbatim>\<open>float64\<close> nearest to \<open>n / d\<close>, for \<open>0 \<le> n\<close> and \<open>0 < d\<close>: the quotient is
  rounded to a multiple of \<open>2 ^ (e - 52)\<close>, where \<open>e\<close> is its exponent and at least
  \<open>- 1022\<close> (below that the numbers are subnormal); a result of \<open>2 ^ 1024\<close> or more is
  the infinity.
\<close>

definition round64_frac :: "int \<Rightarrow> int \<Rightarrow> float64" where
  "round64_frac n d =
     (if n = 0 then Finite 0
      else let e = max (floor_log2 n d) (- 1022);
               s = e - 52;
               m = (if 0 \<le> s then round_half_even n (d * 2 ^ nat s)
                    else round_half_even (n * 2 ^ nat (- s)) d)
           in if 1023 < e \<or> (e = 1023 \<and> m = 2 ^ 53) then PInf
              else Finite (if 0 \<le> s then of_int (m * 2 ^ nat s)
                           else of_int m / of_int (2 ^ nat (- s))))"

definition round64 :: "rat \<Rightarrow> float64" where
  "round64 x =
     (let (n, d) = quotient_of x
      in if 0 \<le> n then round64_frac n d
         else (case round64_frac (- n) d of Finite y \<Rightarrow> Finite (- y) | PInf \<Rightarrow> NInf | z \<Rightarrow> z))"

text \<open>
  The quotient \<^verbatim>\<open>x / c\<close> for a finite constant \<open>c > 0\<close> (the parser divides by
  \<open>1024 * 1024 * 1024\<close> only), and the comparison \<^verbatim>\<open>x < y\<close>, which is false as soon as
  one side is NaN.
\<close>

definition fdiv_const :: "float64 \<Rightarrow> rat \<Rightarrow> float64" where
  "fdiv_const x c = (case x of Finite a \<Rightarrow> round64 (a / c) | z \<Rightarrow> z)"

fun flt :: "float64 \<Rightarrow> float64 \<Rightarrow> bool" where
  "flt (Finite a) (Finite b) = (a < b)"
| "flt (Finite a) PInf = True"
| "flt NInf (Finite b) = True"
| "flt NInf PInf = True"
| "flt x y = False"

section \<open>Errors\<close>

text \<open>
  Every \<^verbatim>\<open>fmt.Errorf\<close> of the collector, the parser and the validator is one
  constructor; the wrapping verbs (\<^verbatim>\<open>%w\<close>) take the wrapped error as argument.
  \<open>ErrSyntax\<close> and \<open>ErrRange\<close> are the two errors of \<^verbatim>\<open>strconv\<close>.
\<close>

datatype error =
    EmptyOutput
  | NoGPUDataFound
  | NoGPUDataAvailable
  | InvalidTemperature nat float64
  | InvalidPower nat float64
  | InvalidGPUUsage nat float64
  | InvalidCPUUsage float64
  | NoDataAvailable
  | ErrSyntax
  | ErrRange
  | ExecError string
  | ExecutionFailed error
  | ParsingFailed error
  | CPUCollectionFailed error
  | ValidationFailed error

section \<open>Data model (rocm\_data.go)\<close>

text \<open>
  A \<^verbatim>\<open>time.Time\<close> is an instant, counted in nanoseconds. A \<^verbatim>\<open>time.Duration\<close> is an
  \<^verbatim>\<open>int64\<close> count of nanoseconds: it is kept as an integer, and where the code computes
  with it the wrap-around is written out (\<open>wrap64\<close>).
\<close>

type_synonym Time = int
type_synonym Duration = int

definition wrap64 :: "int \<Rightarrow> int" where
  "wrap64 x = (x + 2 ^ 63) mod 2 ^ 64 - 2 ^ 63"

record GPU =
  ID :: int
  Name :: string
  Temperature :: float64
  Power :: float64
  VRAMUsage :: float64
  VRAMTotal :: float64
  GPUUsage :: float64
  FanSpeed :: float64
  SCLKFreq :: float64
  MCLKFreq :: float64

record RocmData =
  Timestamp :: Time
  GPUs :: "GPU list"
  CPUUsage :: float64

text \<open>The composite literal \<^verbatim>\<open>GPU{ID: id}\<close>: every other field has its zero value.\<close>

definition GPU_lit :: "int \<Rightarrow> GPU" where
  "GPU_lit i =
     \<lparr>ID = i, Name = [], Temperature = Finite 0, Power = Finite 0, VRAMUsage = Finite 0,
      VRAMTotal = Finite 0, GPUUsage = Finite 0, FanSpeed = Finite 0, SCLKFreq = Finite 0,
      MCLKFreq = Finite 0\<rparr>"

section \<open>Regular expressions (the fragment of Go's \<^verbatim>\<open>regexp\<close> the parser uses)\<close>

text \<open>
  Go's \<^verbatim>\<open>regexp\<close> returns the match a backtracking engine finds first
  (leftmost, then greedy operators prefer more). The matcher below returns, for a
  pattern and a position in the text, every way the pattern can match there, in that
  order of preference; the first element is Go's match.
  A matcher state is the offset reached, the text still to read and the capture groups
  set so far (group number and captured text, latest first).
\<close>

datatype regex =
    Sat "char \<Rightarrow> bool"
  | Lit string
  | Bol
  | Eol
  | Seq regex regex
  | Star regex
  | Opt regex
  | Group nat regex

type_synonym mstate = "nat \<times> string \<times> (nat \<times> string) list"

fun lit_match :: "string \<Rightarrow> string \<Rightarrow> string option" where
  "lit_match [] s = Some s"
| "lit_match (c # cs) [] = None"
| "lit_match (c # cs) (d # ds) = (if c = d then lit_match cs ds else None)"

text \<open>
  Greedy iteration: as many rounds of \<open>f\<close> as possible first, then fewer. A round that
  reads nothing is not repeated; \<open>n\<close> bounds the rounds by the text that is left.
\<close>

fun iter :: "nat \<Rightarrow> (mstate \<Rightarrow> mstate list) \<Rightarrow> mstate \<Rightarrow> mstate list" where
  "iter 0 f st = [st]"
| "iter (Suc n) f st =
     concat (map (iter n f) (filter (\<lambda>st'. fst st < fst st') (f st))) @ [st]"

primrec rmatch :: "regex \<Rightarrow> mstate \<Rightarrow> mstate list" where
  "rmatch (Sat P) = (\<lambda>(pos, s, caps).
     case s of [] \<Rightarrow> [] | c # cs \<Rightarrow> if P c then [(Suc pos, cs, caps)] else [])"
| "rmatch (Lit l) = (\<lambda>(pos, s, caps).
     case lit_match l s of None \<Rightarrow> [] | Some s' \<Rightarrow> [(pos + length l, s', caps)])"
| "rmatch Bol = (\<lambda>(pos, s, caps). if pos = 0 then [(pos, s, caps)] else [])"
| "rmatch Eol = (\<lambda>(pos, s, caps). if s = [] then [(pos, s, caps)] else [])"
| "rmatch (Seq a b) = (\<lambda>st. concat (map (rmatch b) (rmatch a st)))"
| "rmatch (Star a) = (\<lambda>st. iter (length (fst (snd st))) (rmatch a) st)"
| "rmatch (Opt a) = (\<lambda>st. rmatch a st @ [st])"
| "rmatch (Group i a) = (\<lambda>(pos, s, caps).
     map (\<lambda>(pos', s', caps'). (pos', s', (i, take (pos' - pos) s) # caps')) (rmatch a (pos, s, caps)))"

definition Plus :: "regex \<Rightarrow> regex" where
  "Plus a = Seq a (Star a)"

fun Cat :: "regex list \<Rightarrow> regex" where
  "Cat [] = Lit []"
| "Cat [a] = a"
| "Cat (a # as) = Seq a (Cat as)"

text \<open>\<^verbatim>\<open>\d\<close> is \<^verbatim>\<open>[0-9]\<close> and \<^verbatim>\<open>\s\<close> is \<^verbatim>\<open>[\t\n\f\r ]\<close> in Go (ASCII only).\<close>

definition digit :: "char \<Rightarrow> bool" where
  "digit c = (c \<in> set ''0123456789'')"

definition space :: "char \<Rightarrow> bool" where
  "space c = (c \<in> {CHR 0x09, CHR 0x0A, CHR 0x0C, CHR 0x0D, CHR '' ''})"

text \<open>
  The submatches of a final state: element 0 is the whole match, element \<open>i\<close> the text
  of group \<open>i\<close> (empty when the group took no part), for \<open>ngroups\<close> groups.
\<close>

definition submatches :: "nat \<Rightarrow> string \<Rightarrow> nat \<Rightarrow> mstate \<Rightarrow> string list" where
  "submatches ngroups s start st =
     take (fst st - start) s #
     map (\<lambda>i. case map_of (snd (snd st)) i of None \<Rightarrow> [] | Some t \<Rightarrow> t) [1..<Suc ngroups]"

text \<open>
  The leftmost match at or after offset \<open>pos\<close>, where \<open>s\<close> is the text from \<open>pos\<close> on:
  the submatches, the offset after the match and the text after it.
\<close>

fun find_from :: "regex \<Rightarrow> nat \<Rightarrow> nat \<Rightarrow> string \<Rightarrow> (string list \<times> nat \<times> string) option" where
  "find_from r ng pos [] =
     (case rmatch r (pos, [], []) of
        [] \<Rightarrow> None
      | st # _ \<Rightarrow> Some (submatches ng [] pos st, fst st, fst (snd st)))"
| "find_from r ng pos (c # cs) =
     (case rmatch r (pos, c # cs, []) of
        [] \<Rightarrow> find_from r ng (Suc pos) cs
      | st # _ \<Rightarrow> Some (submatches ng (c # cs) pos st, fst st, fst (snd st)))"

text \<open>A compiled pattern: the expression and its number of capture groups.\<close>

record Regexp =
  expr :: regex
  groups :: nat

text \<open>\<^verbatim>\<open>FindStringSubmatch\<close>: the submatches of the leftmost match, \<open>[]\<close> (nil) when none.\<close>

definition FindStringSubmatch :: "Regexp \<Rightarrow> string \<Rightarrow> string list" where
  "FindStringSubmatch re s =
     (case find_from (expr re) (groups re) 0 s of None \<Rightarrow> [] | Some (m, _, _) \<Rightarrow> m)"

text \<open>
  \<^verbatim>\<open>FindAllStringSubmatch(s, -1)\<close>: the successive non-overlapping matches. After an
  empty match the search moves on by one character.
\<close>

function find_all :: "regex \<Rightarrow> nat \<Rightarrow> nat \<Rightarrow> string \<Rightarrow> string list list" where
  "find_all r ng pos s =
     (case find_from r ng pos s of
        None \<Rightarrow> []
      | Some (m, pos', s') \<Rightarrow>
          m # (if length s' < length s then find_all r ng pos' s'
               else (case s of [] \<Rightarrow> [] | c # cs \<Rightarrow> find_all r ng (Suc pos) cs)))"
  by pat_completeness auto
termination
  by (relation "measure (\<lambda>(r, ng, pos, s). length s)") auto

definition FindAllStringSubmatch :: "Regexp \<Rightarrow> string \<Rightarrow> string list list" where
  "FindAllStringSubmatch re s = find_all (expr re) (groups re) 0 s"

section \<open>\<^verbatim>\<open>strconv\<close>, \<^verbatim>\<open>strings\<close> and \<^verbatim>\<open>fmt\<close>\<close>

definition digits_val :: "string \<Rightarrow> int" where
  "digits_val ds = foldl (\<lambda>n c. 10 * n + (of_char c - 48)) 0 ds"

text \<open>
  \<^verbatim>\<open>strconv.Atoi\<close> on a 64-bit platform: an optional sign and decimal digits. It
  returns a value together with the error: \<open>0\<close> on a syntax error, the nearest
  \<^verbatim>\<open>int64\<close> on a range error. The parser drops the error and keeps the value.
\<close>

definition Atoi :: "string \<Rightarrow> int \<times> error option" where
  "Atoi s =
     (let (neg, ds) = (case s of
                         [] \<Rightarrow> (False, [])
                       | c # cs \<Rightarrow> if c = CHR ''-'' then (True, cs)
                                  else if c = CHR ''+'' then (False, cs) else (False, s))
      in if ds = [] \<or> \<not> list_all digit ds then (0, Some ErrSyntax)
         else let n = digits_val ds
              in if \<not> neg \<and> 2 ^ 63 \<le> n then (2 ^ 63 - 1, Some ErrRange)
                 else if neg \<and> 2 ^ 63 < n then (- (2 ^ 63), Some ErrRange)
                 else (if neg then - n else n, None))"

text \<open>
  \<^verbatim>\<open>strconv.ParseFloat(s, 64)\<close> on the tokens the patterns capture, \<^verbatim>\<open>\d+\.?\d*\<close>
  and \<^verbatim>\<open>\d+\<close>: decimal digits with an optional fraction. The result is the \<^verbatim>\<open>float64\<close>
  nearest to the decimal value; a value beyond the range gives the infinity together
  with the range error. Signs, exponents and the special values never reach it from the
  parser and are not covered: any other text gives the syntax error with value \<open>0\<close>.
\<close>

definition ParseFloat :: "string \<Rightarrow> float64 \<times> error option" where
  "ParseFloat s =
     (let ip = takeWhile digit s; r = dropWhile digit s; fp = (if r = [] then [] else tl r)
      in if (r = [] \<and> ip \<noteq> []) \<or>
            (r \<noteq> [] \<and> hd r = CHR ''.'' \<and> list_all digit fp \<and> (ip \<noteq> [] \<or> fp \<noteq> []))
         then let f = round64_frac (digits_val (ip @ fp)) (10 ^ length fp)
              in (f, if f = PInf then Some ErrRange else None)
         else (Finite 0, Some ErrSyntax))"

text \<open>\<^verbatim>\<open>strings.Split(s, sep)\<close> for a separator of one byte.\<close>

fun Split :: "string \<Rightarrow> char \<Rightarrow> string list" where
  "Split [] sep = [[]]"
| "Split (c # cs) sep =
     (if c = sep then [] # Split cs sep
      else (case Split cs sep of [] \<Rightarrow> [[c]] | l # ls \<Rightarrow> (c # l) # ls))"

text \<open>The verb \<^verbatim>\<open>%d\<close> of \<^verbatim>\<open>fmt.Sprintf\<close>.\<close>

function dec_digits :: "int \<Rightarrow> string" where
  "dec_digits n = (if n < 10 then [char_of (48 + n)]
                   else dec_digits (n div 10) @ [char_of (48 + n mod 10)])"
  by pat_completeness auto
termination
  by (relation "measure nat") auto

definition dec_int :: "int \<Rightarrow> string" where
  "dec_int i = (if i < 0 then CHR ''-'' # dec_digits (- i) else dec_digits i)"

section \<open>Parser (rocm\_data.go)\<close>

record Parser =
  tempRegex :: Regexp
  powerRegex :: Regexp
  vramRegex :: Regexp
  gpuRegex :: Regexp
  fanRegex :: Regexp
  deviceIDRegex :: Regexp
  vramTotalRegex :: Regexp
  vramUsedRegex :: Regexp
  sclkRegex :: Regexp
  mclkRegex :: Regexp

text \<open>The token \<^verbatim>\<open>\d+\.?\d*\<close>, which seven of the patterns share.\<close>

definition number :: regex where
  "number = Cat [Plus (Sat digit), Opt (Lit ''.''), Star (Sat digit)]"

text \<open>
  \<^verbatim>\<open>GPU\[...\]\s*:\s*<what>\s*\d+:\s*\((\d+)Mhz\)\<close>, the shape of the clock patterns,
  with the device index pattern as parameter.
\<close>

definition clock_pattern :: "regex \<Rightarrow> string \<Rightarrow> Regexp" where
  "clock_pattern idx what =
     \<lparr>expr = Cat [Lit ''GPU['', idx, Lit '']'', Star (Sat space), Lit '':'', Star (Sat space),
                  Lit what, Star (Sat space), Plus (Sat digit), Lit '':'', Star (Sat space),
                  Lit ''('', Group 1 (Plus (Sat digit)), Lit ''Mhz)''],
      groups = 1\<rparr>"

text \<open>The degree sign before the \<^verbatim>\<open>C\<close> of the temperature pattern is the two bytes \<open>C2 B0\<close> in the UTF-8 text.\<close>

definition NewParser :: Parser where
  "NewParser =
     \<lparr>tempRegex = \<lparr>expr = Cat [Group 1 number, Star (Sat space), Lit [CHR 0xC2, CHR 0xB0, CHR ''C'']],
                   groups = 1\<rparr>,
      powerRegex = \<lparr>expr = Cat [Group 1 number, Star (Sat space), Lit ''W''], groups = 1\<rparr>,
      vramRegex = \<lparr>expr = Cat [Group 1 number, Lit ''%'', Plus (Sat space), Group 2 number, Lit ''%'',
                               Star (Sat space), Eol],
                   groups = 2\<rparr>,
      gpuRegex = \<lparr>expr = Cat [Group 1 number, Lit ''%'', Star (Sat space), Eol], groups = 1\<rparr>,
      fanRegex = \<lparr>expr = Cat [Group 1 number, Lit ''%'', Plus (Sat space), Lit ''auto''], groups = 1\<rparr>,
      deviceIDRegex = \<lparr>expr = Cat [Bol, Group 1 (Plus (Sat digit)), Plus (Sat space)], groups = 1\<rparr>,
      vramTotalRegex = \<lparr>expr = Cat [Lit ''GPU['', Group 1 (Plus (Sat digit)), Lit '']'', Star (Sat space),
                                    Lit '':'', Star (Sat space), Lit ''VRAM Total Memory (B):'',
                                    Star (Sat space), Group 2 (Plus (Sat digit))],
                        groups = 2\<rparr>,
      vramUsedRegex = \<lparr>expr = Cat [Lit ''GPU['', Group 1 (Plus (Sat digit)), Lit '']'', Star (Sat space),
                                   Lit '':'', Star (Sat space), Lit ''VRAM Total Used Memory (B):'',
                                   Star (Sat space), Group 2 (Plus (Sat digit))],
                       groups = 2\<rparr>,
      sclkRegex = clock_pattern (Plus (Sat digit)) ''sclk clock level:'',
      mclkRegex = clock_pattern (Plus (Sat digit)) ''mclk clock level:''\<rparr>"

text \<open>
  A Go \<^verbatim>\<open>map[int]T\<close> is an association list with distinct keys: \<open>AList.update\<close> is the
  assignment \<^verbatim>\<open>m[k] = v\<close>, \<open>map_of\<close> the lookup and \<open>length\<close> is \<^verbatim>\<open>len\<close>.
\<close>

definition splitByGPU :: "Parser \<Rightarrow> string \<Rightarrow> (int \<times> string) list" where
  "splitByGPU p output =
     (let sections =
            foldl (\<lambda>sections line.
                     let matches = FindStringSubmatch (deviceIDRegex p) line
                     in if length matches > 1
                        then AList.update (fst (Atoi (matches ! 1))) line sections
                        else sections)
                  [] (Split output CHR 0x0A)
      in if length sections = 0 then [(0, output)] else sections)"

text \<open>
  The two loops that fill \<^verbatim>\<open>vramTotalMap\<close> and \<^verbatim>\<open>vramUsedMap\<close>: every match of the
  pattern in the whole output stores its byte count, in gigabytes, under its device index.
\<close>

definition vram_bytes_map :: "Regexp \<Rightarrow> string \<Rightarrow> (int \<times> float64) list" where
  "vram_bytes_map re output =
     foldl (\<lambda>m match.
              if length match > 2
              then AList.update (fst (Atoi (match ! 1)))
                     (fdiv_const (fst (ParseFloat (match ! 2))) (1024 * 1024 * 1024)) m
              else m)
           [] (FindAllStringSubmatch re output)"

text \<open>The body of the loop over the sections: the record of device \<open>gid\<close> (the loop variable \<^verbatim>\<open>id\<close>).\<close>

definition parse_section ::
  "Parser \<Rightarrow> string \<Rightarrow> (int \<times> float64) list \<Rightarrow> (int \<times> float64) list \<Rightarrow> int \<Rightarrow> string \<Rightarrow> GPU" where
  "parse_section p output vramTotalMap vramUsedMap gid section =
     (let gpu = GPU_lit gid;
          matches = FindStringSubmatch (tempRegex p) section;
          gpu = (if length matches > 1
                 then gpu\<lparr>Temperature := fst (ParseFloat (matches ! 1))\<rparr> else gpu);
          matches = FindStringSubmatch (powerRegex p) section;
          gpu = (if length matches > 1
                 then gpu\<lparr>Power := fst (ParseFloat (matches ! 1))\<rparr> else gpu);
          matches = FindStringSubmatch (vramRegex p) section;
          gpu = (if length matches > 2
                 then gpu\<lparr>VRAMUsage := fst (ParseFloat (matches ! 1)),
                          GPUUsage := fst (ParseFloat (matches ! 2))\<rparr>
                 else gpu);
          matches = FindStringSubmatch (fanRegex p) section;
          gpu = (if length matches > 1
                 then gpu\<lparr>FanSpeed := fst (ParseFloat (matches ! 1))\<rparr> else gpu);
          sclkPattern = clock_pattern (Lit (dec_int gid)) ''sclk clock level:'';
          matches = FindStringSubmatch sclkPattern output;
          gpu = (if length matches > 1
                 then gpu\<lparr>SCLKFreq := fst (ParseFloat (matches ! 1))\<rparr> else gpu);
          mclkPattern = clock_pattern (Lit (dec_int gid)) ''mclk clock level:'';
          matches = FindStringSubmatch mclkPattern output;
          gpu = (if length matches > 1
                 then gpu\<lparr>MCLKFreq := fst (ParseFloat (matches ! 1))\<rparr> else gpu);
          gpu = (case map_of vramTotalMap gid of
                   Some totalGB \<Rightarrow> gpu\<lparr>VRAMTotal := totalGB\<rparr> | None \<Rightarrow> gpu);
          gpu = (case map_of vramUsedMap gid of
                   Some usedGB \<Rightarrow> gpu\<lparr>VRAMUsage := usedGB\<rparr> | None \<Rightarrow> gpu)
      in gpu)"

text \<open>
  \<^verbatim>\<open>ParseRocmSMIOutput\<close>. Go leaves the order in which \<^verbatim>\<open>range\<close> visits a map
  unspecified; \<open>ord\<close> is the order the runtime chooses for the sections, and \<open>now\<close> is
  the reading of the clock.
\<close>

type_synonym range_order = "(int \<times> string) list \<Rightarrow> (int \<times> string) list"

definition ParseRocmSMIOutput ::
  "Parser \<Rightarrow> range_order \<Rightarrow> Time \<Rightarrow> string \<Rightarrow> error + RocmData" where
  "ParseRocmSMIOutput p ord now output =
     (if output = [] then Inl EmptyOutput
      else let vramTotalMap = vram_bytes_map (vramTotalRegex p) output;
               vramUsedMap = vram_bytes_map (vramUsedRegex p) output;
               gpuSections = splitByGPU p output;
               gpus = map (\<lambda>(gid, section). parse_section p output vramTotalMap vramUsedMap gid section)
                        (ord gpuSections)
           in if length gpus = 0 then Inl NoGPUDataFound
              else Inr \<lparr>Timestamp = now, GPUs = gpus, CPUUsage = Finite 0\<rparr>)"

text \<open>
  An order the runtime may choose: it visits every entry of the map once.
\<close>

definition visits_each_once :: "range_order \<Rightarrow> bool" where
  "visits_each_once ord = (\<forall>m. mset (ord m) = mset m)"

section \<open>Validation (rocm\_data.go)\<close>

text \<open>The loop of \<^verbatim>\<open>Validate\<close> over the devices; \<open>i\<close> is the loop index.\<close>

fun validate_gpus :: "nat \<Rightarrow> GPU list \<Rightarrow> error option" where
  "validate_gpus i [] = None"
| "validate_gpus i (gpu # gpus) =
     (if flt (Temperature gpu) (Finite 0) \<or> flt (Finite 150) (Temperature gpu)
      then Some (InvalidTemperature i (Temperature gpu))
      else if flt (Power gpu) (Finite 0) \<or> flt (Finite 1000) (Power gpu)
      then Some (InvalidPower i (Power gpu))
      else if flt (GPUUsage gpu) (Finite 0) \<or> flt (Finite 100) (GPUUsage gpu)
      then Some (InvalidGPUUsage i (GPUUsage gpu))
      else validate_gpus (Suc i) gpus)"

text \<open>\<^verbatim>\<open>Validate\<close>: \<open>None\<close> is the \<^verbatim>\<open>nil\<close> error.\<close>

definition Validate :: "RocmData \<Rightarrow> error option" where
  "Validate d =
     (if length (GPUs d) = 0 then Some NoGPUDataAvailable
      else (case validate_gpus 0 (GPUs d) of
              Some err \<Rightarrow> Some err
            | None \<Rightarrow>
                if flt (CPUUsage d) (Finite 0) \<or> flt (Finite 100) (CPUUsage d)
                then Some (InvalidCPUUsage (CPUUsage d))
                else None))"

section \<open>Collector\<close>

record CollectorConfig =
  MaxHistory :: int
  Interval :: Duration
  ErrorCallback :: bool

text \<open>
  The collector. The mutex is not modelled: every operation below is one atomic step.
  A context is known by a number; \<open>cancelled\<close> lists the contexts cancelled so far and
  \<open>loops\<close> counts the \<^verbatim>\<open>collectLoop\<close> goroutines started. \<open>errorCallback\<close> tells whether
  a callback is set (it is \<^verbatim>\<open>nil\<close> otherwise).
\<close>

record Collector =
  parser :: Parser
  history :: "RocmData list"
  maxHistory :: int
  interval :: Duration
  ctx :: nat
  cancelled :: "nat list"
  loops :: nat
  errorCallback :: bool

definition Second :: Duration where
  "Second = 1000000000"


definition NewCollector :: "CollectorConfig \<Rightarrow> Collector" where
  "NewCollector config =
     (let config = (if MaxHistory config \<le> 0 then config\<lparr>MaxHistory := 1000\<rparr> else config);
          config = (if Interval config \<le> 0 then config\<lparr>Interval := 5 * Second\<rparr> else config)
      in \<lparr>parser = NewParser, history = [], maxHistory = MaxHistory config,
          interval = Interval config, ctx = 0, cancelled = [], loops = 0,
          errorCallback = ErrorCallback config\<rparr>)"

definition Start :: "Collector \<Rightarrow> Collector" where
  "Start c = c\<lparr>loops := Suc (loops c)\<rparr>"

definition Stop :: "Collector \<Rightarrow> Collector" where
  "Stop c = c\<lparr>cancelled := ctx c # cancelled c\<rparr>"

text \<open>
  What the outside world delivers in one round of \<^verbatim>\<open>collect\<close>: the result of each of
  the three \<^verbatim>\<open>rocm-smi\<close> commands (its output, or the error of \<^verbatim>\<open>cmd.Output\<close>), the
  result of \<^verbatim>\<open>GetCPUUsage\<close>, the clock read by the parser and the order in which the
  runtime visits the sections.
\<close>

record round =
  rocm_smi :: "error + string"
  rocm_smi_vram :: "error + string"
  rocm_smi_clock :: "error + string"
  cpu_usage :: "error + float64"
  clock :: Time
  map_order :: range_order

text \<open>The text handed to the parser: the primary output, then each extra output that came.\<close>

definition combinedOutput :: "round \<Rightarrow> string \<Rightarrow> string" where
  "combinedOutput r output =
     (let combined = output;
          combined = (case rocm_smi_vram r of
                        Inr vramOutput \<Rightarrow> combined @ [CHR 0x0A] @ vramOutput | Inl _ \<Rightarrow> combined);
          combined = (case rocm_smi_clock r of
                        Inr clockOutput \<Rightarrow> combined @ [CHR 0x0A] @ clockOutput | Inl _ \<Rightarrow> combined)
      in combined)"

text \<open>
  The first part of \<^verbatim>\<open>collect\<close>, up to the validation: the errors it hands to the
  callback, in order, and the validated sample when the round got that far.
\<close>

definition sample :: "Parser \<Rightarrow> round \<Rightarrow> error list \<times> RocmData option" where
  "sample p r =
     (case rocm_smi r of
        Inl err \<Rightarrow> ([ExecutionFailed err], None)
      | Inr output \<Rightarrow>
          (case ParseRocmSMIOutput p (map_order r) (clock r) (combinedOutput r output) of
             Inl err \<Rightarrow> ([ParsingFailed err], None)
           | Inr data \<Rightarrow>
               let (cpuUsage, errs) =
                     (case cpu_usage r of
                        Inl err \<Rightarrow> (Finite 0, [CPUCollectionFailed err])
                      | Inr u \<Rightarrow> (u, []));
                   data = data\<lparr>CPUUsage := cpuUsage\<rparr>
               in (case Validate data of
                     Some err \<Rightarrow> (errs @ [ValidationFailed err], None)
                   | None \<Rightarrow> (errs, Some data))))"

text \<open>
  \<^verbatim>\<open>collect\<close>: the new state and the errors the callback received. A failed round
  returns early; a validated sample is appended and the history cut to its most
  recent \<open>maxHistory\<close> entries. (\<open>maxHistory\<close> is positive in every collector that
  \<open>NewCollector\<close> makes, and no operation changes it.)
\<close>

definition collect :: "round \<Rightarrow> Collector \<Rightarrow> Collector \<times> error list" where
  "collect r c =
     (let (errs, result) = sample (parser c) r;
          reported = (if errorCallback c then errs else [])
      in case result of
           None \<Rightarrow> (c, reported)
         | Some data \<Rightarrow>
             let hist = history c @ [data];
                 hist = (if int (length hist) > maxHistory c
                         then drop (nat (int (length hist) - maxHistory c)) hist else hist)
             in (c\<lparr>history := hist\<rparr>, reported))"

text \<open>The rounds of \<^verbatim>\<open>collectLoop\<close>, one after the other.\<close>

fun collect_rounds :: "round list \<Rightarrow> Collector \<Rightarrow> Collector" where
  "collect_rounds [] c = c"
| "collect_rounds (r # rs) c = collect_rounds rs (fst (collect r c))"

text \<open>\<^verbatim>\<open>GetHistory\<close>, by value: the samples of the timeline in order.\<close>

definition GetHistory :: "Collector \<Rightarrow> RocmData list" where
  "GetHistory c = history c"

definition GetLatest :: "Collector \<Rightarrow> error + RocmData" where
  "GetLatest c =
     (if length (history c) = 0 then Inl NoDataAvailable
      else Inr (history c ! (length (history c) - 1)))"

text \<open>
  \<^verbatim>\<open>SetInterval\<close>: stop, store the interval, make a new context, start again.
\<close>

definition SetInterval :: "Duration \<Rightarrow> Collector \<Rightarrow> Collector" where
  "SetInterval d c =
     (if d \<le> 0 then c
      else let c = Stop c;
               c = c\<lparr>interval := d\<rparr>;
               c = c\<lparr>ctx := Suc (ctx c)\<rparr>
           in Start c)"

definition ClearHistory :: "Collector \<Rightarrow> Collector" where
  "ClearHistory c = c\<lparr>history := []\<rparr>"

section \<open>The time window of \<^verbatim>\<open>statsHandler\<close> (main.go)\<close>

datatype response =
    HttpError nat string
  | Json "RocmData list"

text \<open>
  \<open>window\<close> is the query parameter: \<open>None\<close> when absent or empty, else the result of
  \<^verbatim>\<open>time.ParseDuration\<close>, an \<^verbatim>\<open>int64\<close>. \<open>now\<close> is the clock at the call. The negation
  \<^verbatim>\<open>-duration\<close> is an \<^verbatim>\<open>int64\<close> negation and wraps; \<^verbatim>\<open>Add\<close> moves the instant by the
  duration it is given, and \<^verbatim>\<open>t.After(u)\<close> is \<open>u < t\<close>. (Instants are those of one
  clock: the wall reading and the monotonic reading of a \<^verbatim>\<open>time.Time\<close> are taken to
  advance together, and a clock reading moved by an \<^verbatim>\<open>int64\<close> of nanoseconds stays a
  representable instant.)
\<close>

definition statsHandler :: "Time \<Rightarrow> (error + Duration) option \<Rightarrow> Collector \<Rightarrow> response" where
  "statsHandler now window c =
     (case window of
        Some (Inr duration) \<Rightarrow>
          let hist = GetHistory c
          in if length hist = 0 then HttpError 404 ''No data available''
             else let cutoff = now + wrap64 (- duration)
                  in Json (filter (\<lambda>data. cutoff < Timestamp data) hist)
      | _ \<Rightarrow> Json (GetHistory c))"

section \<open>The timeline in memory: slices and their backing arrays\<close>

text \<open>
  A Go slice is a header (backing array, offset, length) and a struct with a slice field
  holds the header, not the elements: copying the struct copies the header, and both
  copies then read and write the same array. To speak about what a caller of
  \<^verbatim>\<open>GetHistory\<close> can change, this section keeps the arrays in an explicit memory.
\<close>

type_synonym addr = nat

record slice =
  array :: addr
  offset :: nat
  len :: nat

text \<open>The struct \<^verbatim>\<open>RocmData\<close> as it lies in an array of the history.\<close>

record RocmData_mem =
  Timestamp_mem :: Time
  GPUs_mem :: slice
  CPUUsage_mem :: float64

record memory =
  gpu_arrays :: "addr \<Rightarrow> GPU list"
  data_arrays :: "addr \<Rightarrow> RocmData_mem list"
  next_free :: addr

definition elems :: "'a list \<Rightarrow> slice \<Rightarrow> 'a list" where
  "elems arr s = take (len s) (drop (offset s) arr)"

text \<open>The sample a stored struct denotes, and the timeline a history slice denotes.\<close>

definition read_data :: "memory \<Rightarrow> RocmData_mem \<Rightarrow> RocmData" where
  "read_data m d =
     \<lparr>Timestamp = Timestamp_mem d,
      GPUs = elems (gpu_arrays m (array (GPUs_mem d))) (GPUs_mem d),
      CPUUsage = CPUUsage_mem d\<rparr>"

definition timeline :: "memory \<Rightarrow> slice \<Rightarrow> RocmData list" where
  "timeline m h = map (read_data m) (elems (data_arrays m (array h)) h)"

text \<open>\<^verbatim>\<open>make([]RocmData, n)\<close>: a fresh array of \<open>n\<close> zero structs.\<close>

definition make_data :: "nat \<Rightarrow> memory \<Rightarrow> slice \<times> memory" where
  "make_data n m =
     (let a = next_free m;
          zero = \<lparr>Timestamp_mem = 0, GPUs_mem = \<lparr>array = 0, offset = 0, len = 0\<rparr>,
                  CPUUsage_mem = Finite 0\<rparr>
      in (\<lparr>array = a, offset = 0, len = n\<rparr>,
          m\<lparr>data_arrays := (data_arrays m)(a := replicate n zero), next_free := Suc a\<rparr>))"

text \<open>\<^verbatim>\<open>copy(dst, src)\<close>: the first \<open>min (len dst) (len src)\<close> structs, headers included.\<close>

definition copy_data :: "slice \<Rightarrow> slice \<Rightarrow> memory \<Rightarrow> memory" where
  "copy_data dst src m =
     (let n = min (len dst) (len src);
          from = take n (elems (data_arrays m (array src)) src);
          old = data_arrays m (array dst)
      in m\<lparr>data_arrays := (data_arrays m)
            (array dst := take (offset dst) old @ from @ drop (offset dst + n) old)\<rparr>)"

text \<open>\<^verbatim>\<open>GetHistory\<close> on the memory; \<open>h\<close> is the header \<^verbatim>\<open>c.history\<close>.\<close>

definition GetHistory_mem :: "slice \<Rightarrow> memory \<Rightarrow> slice \<times> memory" where
  "GetHistory_mem h m =
     (let (historyCopy, m) = make_data (len h) m;
          m = copy_data historyCopy h m
      in (historyCopy, m))"

text \<open>
  What a caller can do with a slice \<open>s\<close> it was given: the assignments \<^verbatim>\<open>s[i] = v\<close> and
  \<^verbatim>\<open>s[i].GPUs[j] = g\<close>. An index out of range panics (\<open>None\<close>).
\<close>

definition set_data :: "slice \<Rightarrow> nat \<Rightarrow> RocmData_mem \<Rightarrow> memory \<Rightarrow> memory option" where
  "set_data s i v m =
     (if i < len s \<and> offset s + i < length (data_arrays m (array s))
      then Some (m\<lparr>data_arrays := (data_arrays m)
                   (array s := (data_arrays m (array s))[offset s + i := v])\<rparr>)
      else None)"

definition set_gpu :: "slice \<Rightarrow> nat \<Rightarrow> nat \<Rightarrow> GPU \<Rightarrow> memory \<Rightarrow> memory option" where
  "set_gpu s i j g m =
     (if i < len s \<and> offset s + i < length (data_arrays m (array s))
      then let gs = GPUs_mem (data_arrays m (array s) ! (offset s + i))
           in if j < len gs \<and> offset gs + j < length (gpu_arrays m (array gs))
              then Some (m\<lparr>gpu_arrays := (gpu_arrays m)
                           (array gs := (gpu_arrays m (array gs))[offset gs + j := g])\<rparr>)
              else None
      else None)"

section \<open>Notions used in the statements\<close>

text \<open>The samples that a sequence of rounds appends: those of the rounds that pass.\<close>

definition appended :: "Parser \<Rightarrow> round list \<Rightarrow> RocmData list" where
  "appended p rs = List.map_filter (\<lambda>r. snd (sample p r)) rs"





text \<open>
  The lines of the output that begin with an integer token (those \<^verbatim>\<open>splitByGPU\<close>
  takes for device lines), and the device index such a line carries.
\<close>

definition device_lines :: "Parser \<Rightarrow> string \<Rightarrow> string list" where
  "device_lines p output =
     filter (\<lambda>line. length (FindStringSubmatch (deviceIDRegex p) line) > 1) (Split output CHR 0x0A)"

definition device_index :: "Parser \<Rightarrow> string \<Rightarrow> int" where
  "device_index p line = fst (Atoi (FindStringSubmatch (deviceIDRegex p) line ! 1))"

text \<open>The record the parser builds from a device line of an output.\<close>

definition device_of :: "Parser \<Rightarrow> string \<Rightarrow> string \<Rightarrow> GPU" where
  "device_of p output line =
     parse_section p output (vram_bytes_map (vramTotalRegex p) output)
       (vram_bytes_map (vramUsedRegex p) output) (device_index p line) line"

text \<open>
  The number in group \<open>k\<close> of the first match of a pattern in a text, when the match has
  more than \<open>n\<close> submatches; the zero value otherwise.
\<close>

definition field_of :: "Regexp \<Rightarrow> nat \<Rightarrow> nat \<Rightarrow> string \<Rightarrow> float64" where
  "field_of re n k s =
     (let matches = FindStringSubmatch re s
      in if length matches > n then fst (ParseFloat (matches ! k)) else Finite 0)"

text \<open>
  The byte count, as the text of its digits, of the last match of a VRAM pattern that
  carries device index \<open>i\<close>, if there is one.
\<close>

definition last_count :: "Regexp \<Rightarrow> string \<Rightarrow> int \<Rightarrow> string option" where
  "last_count re output i =
     (case filter (\<lambda>m. length m > 2 \<and> fst (Atoi (m ! 1)) = i) (FindAllStringSubmatch re output) of
        [] \<Rightarrow> None
      | m # ms \<Rightarrow> Some (last (m # ms) ! 2))"

text \<open>
  A round in which only the primary command succeeds, with output \<open>out\<close>; the map is
  visited in the order it was filled.
\<close>

definition plain_round :: "string \<Rightarrow> float64 \<Rightarrow> Time \<Rightarrow> round" where
  "plain_round out cpu t =
     \<lparr>rocm_smi = Inr out, rocm_smi_vram = Inl (ExecError ''exit status 1''),
      rocm_smi_clock = Inl (ExecError ''exit status 1''), cpu_usage = Inr cpu, clock = t,
      map_order = (\<lambda>m. m)\<rparr>"

text \<open>
  A memory that holds a timeline of one sample with one device at 45 degrees: the device
  array at address 0, the array of the history at address 1, and the header
  \<^verbatim>\<open>c.history\<close> over it.
\<close>

definition one_sample_memory :: memory where
  "one_sample_memory =
     \<lparr>gpu_arrays = (\<lambda>a. [])(0 := [(GPU_lit 0)\<lparr>Temperature := Finite 45\<rparr>]),
      data_arrays = (\<lambda>a. [])
        (1 := [\<lparr>Timestamp_mem = 1, GPUs_mem = \<lparr>array = 0, offset = 0, len = 1\<rparr>,
                CPUUsage_mem = Finite 0\<rparr>]),
      next_free = 2\<rparr>"

definition one_sample_history :: slice where
  "one_sample_history = \<lparr>array = 1, offset = 0, len = 1\<rparr>"

text \<open>
  Example outputs: the literal text of the specification's example; the same with the
  degree sign and \<^verbatim>\<open>C\<close> after the temperature; three device lines; two device lines
  followed by the detailed VRAM lines of device 0; a device line followed by two
  used-bytes lines of the same device; a device line followed by a used-bytes line whose
  count, \<open>2 ^ 53 + 1\<close>, is not a \<^verbatim>\<open>float64\<close>; a device line at 200 degrees; and a device
  line with every validated field on its upper bound.
\<close>

definition example_line :: string where
  "example_line = ''0  45.0c  120.0W  ...  50%  80%''"

definition example_text :: string where
  "example_text = example_line @ [CHR 0x0A]"

definition celsius_line :: string where
  "celsius_line = ''0  45.0'' @ [CHR 0xC2, CHR 0xB0] @ ''C  120.0W  ...  50%  80%''"

definition celsius_text :: string where
  "celsius_text = celsius_line @ [CHR 0x0A]"

definition line0 :: string where
  "line0 = ''0  45.0'' @ [CHR 0xC2, CHR 0xB0] @ ''C  120.0W  50%  80%''"

definition line1 :: string where
  "line1 = ''1  50.5'' @ [CHR 0xC2, CHR 0xB0] @ ''C  130.0W  60%  90%''"

definition line2 :: string where
  "line2 = ''2  55.0'' @ [CHR 0xC2, CHR 0xB0] @ ''C  140.0W  70%  100%''"

definition three_lines :: string where
  "three_lines = line0 @ [CHR 0x0A] @ line1 @ [CHR 0x0A] @ line2 @ [CHR 0x0A]"

definition vram_lines :: string where
  "vram_lines = line0 @ [CHR 0x0A] @ line1 @ [CHR 0x0A] @
     ''GPU[0] : VRAM Total Memory (B): 2147483648'' @ [CHR 0x0A] @
     ''GPU[0] : VRAM Total Used Memory (B): 1073741824'' @ [CHR 0x0A]"

definition twice_lines :: string where
  "twice_lines = line0 @ [CHR 0x0A] @
     ''GPU[0] : VRAM Total Used Memory (B): 1073741824'' @ [CHR 0x0A] @
     ''GPU[0] : VRAM Total Used Memory (B): 2147483648'' @ [CHR 0x0A]"

definition big_lines :: string where
  "big_lines = line0 @ [CHR 0x0A] @
     ''GPU[0] : VRAM Total Used Memory (B): 9007199254740993'' @ [CHR 0x0A]"



section \<open>Evaluation\<close>

lemmas parser_defs = ParseRocmSMIOutput_def vram_bytes_map_def FindAllStringSubmatch_def
  splitByGPU_def parse_section_def NewParser_def clock_pattern_def number_def Plus_def digit_def
  space_def FindStringSubmatch_def submatches_def GPU_lit_def dec_int_def Atoi_def ParseFloat_def
  digits_val_def

text \<open>An output without device line and without numbers gives the implicit device 0.\<close>

lemma sample_plain_x:
  "0 \<le> cpu \<Longrightarrow> cpu \<le> 100 \<Longrightarrow>
   sample NewParser (plain_round ''x'' (Finite cpu) t)
     = ([], Some \<lparr>Timestamp = t, GPUs = [GPU_lit 0], CPUUsage = Finite cpu\<rparr>)"
  by (simp add: plain_round_def sample_def combinedOutput_def Validate_def parser_defs)

section \<open>The bounded history\<close>

lemma collect_fields:
  "parser (fst (collect r c)) = parser c"
  "maxHistory (fst (collect r c)) = maxHistory c"
  "interval (fst (collect r c)) = interval c"
  by (auto simp: collect_def Let_def split: prod.splits option.splits)

lemma collect_failed: "snd (sample (parser c) r) = None \<Longrightarrow> fst (collect r c) = c"
  by (auto simp: collect_def Let_def split: prod.splits option.splits)

lemma collect_stored:
  assumes s: "snd (sample (parser c) r) = Some d" and pos: "0 < maxHistory c"
  shows "history (fst (collect r c))
         = drop (Suc (length (history c)) - nat (maxHistory c)) (history c @ [d])"
proof -
  have a: "nat (1 + int (length (history c)) - maxHistory c)
           = Suc (length (history c)) - nat (maxHistory c)"
    using pos by linarith
  have b: "(maxHistory c < 1 + int (length (history c)))
           = (nat (maxHistory c) < Suc (length (history c)))"
    using pos by linarith
  obtain e where "sample (parser c) r = (e, Some d)"
    using s by (cases "sample (parser c) r") auto
  then show ?thesis using a b by (simp add: collect_def Let_def)
qed

text \<open>Cutting to the last \<open>n\<close> after each append is cutting to the last \<open>n\<close> once.\<close>

lemma keep_recent_snoc:
  assumes "0 < n"
  shows "drop (Suc (length (drop (length ys - n) ys)) - n) (drop (length ys - n) ys @ [d])
         = drop (length (ys @ [d]) - n) (ys @ [d])"
proof (cases "length ys < n")
  case True
  then show ?thesis by simp
next
  case False
  then have "Suc (length (drop (length ys - n) ys)) - n = 1" using assms by simp
  moreover have "Suc (length ys) - n = Suc (length ys - n)" using False by simp
  ultimately show ?thesis using False assms by (simp add: drop_Suc tl_drop)
qed

lemma collect_rounds_history:
  "0 < maxHistory c \<Longrightarrow> history c = drop (length ys - nat (maxHistory c)) ys \<Longrightarrow>
   history (collect_rounds rs c)
     = drop (length (ys @ appended (parser c) rs) - nat (maxHistory c)) (ys @ appended (parser c) rs)"
proof (induction rs arbitrary: c ys)
  case Nil
  then show ?case by (simp add: appended_def map_filter_simps)
next
  case (Cons r rs)
  show ?case
  proof (cases "snd (sample (parser c) r)")
    case None
    then have "fst (collect r c) = c" by (rule collect_failed)
    with Cons None show ?thesis by (simp add: appended_def map_filter_simps)
  next
    case (Some d)
    let ?c' = "fst (collect r c)"
    have n: "0 < nat (maxHistory c)" using Cons.prems(1) by simp
    have "history ?c' = drop (length (ys @ [d]) - nat (maxHistory c)) (ys @ [d])"
      using collect_stored[OF Some Cons.prems(1)] keep_recent_snoc[OF n, of ys d] Cons.prems(2)
      by simp
    then have "history (collect_rounds rs ?c')
               = drop (length ((ys @ [d]) @ appended (parser ?c') rs) - nat (maxHistory ?c'))
                   ((ys @ [d]) @ appended (parser ?c') rs)"
      using Cons.IH[of ?c' "ys @ [d]"] Cons.prems(1) by (simp add: collect_fields)
    then show ?thesis using Some by (simp add: appended_def map_filter_simps collect_fields)
  qed
qed

lemma NewCollector_fields:
  "history (NewCollector config) = []"
  "maxHistory (NewCollector config) = (if MaxHistory config \<le> 0 then 1000 else MaxHistory config)"
  "parser (NewCollector config) = NewParser"
  "interval (NewCollector config) = (if Interval config \<le> 0 then 5 * Second else Interval config)"
  by (simp_all add: NewCollector_def Let_def)

text \<open>
  C1. The capacity of a collector made by \<open>NewCollector\<close> is the configured one, or 1000
  when that is not positive. After any sequence of rounds the history holds at most that
  many samples, and it is exactly the last \<open>capacity\<close> of the samples appended so far, in
  the order of their appending: what was dropped is the oldest, from the head.
\<close>

theorem history_capacity:
  "maxHistory (NewCollector config) = (if MaxHistory config \<le> 0 then 1000 else MaxHistory config) \<and>
   int (length (history (collect_rounds rs (NewCollector config)))) \<le> maxHistory (NewCollector config) \<and>
   history (collect_rounds rs (NewCollector config))
     = drop (length (appended NewParser rs) - nat (maxHistory (NewCollector config)))
         (appended NewParser rs)"
proof -
  let ?c = "NewCollector config"
  have pos: "0 < maxHistory ?c" by (simp add: NewCollector_fields)
  have "history ?c = drop (length ([]::RocmData list) - nat (maxHistory ?c)) []"
    by (simp add: NewCollector_fields(1))
  from collect_rounds_history[OF pos this, of rs]
  have h: "history (collect_rounds rs ?c)
     = drop (length (appended NewParser rs) - nat (maxHistory ?c)) (appended NewParser rs)"
    by (simp add: NewCollector_fields(3))
  have "length (history (collect_rounds rs ?c)) \<le> nat (maxHistory ?c)"
    unfolding h using pos by simp
  then have "int (length (history (collect_rounds rs ?c))) \<le> maxHistory ?c" using pos by simp
  with h show ?thesis by (simp add: NewCollector_fields(2))
qed

text \<open>Capacity 2 and three rounds that pass: the samples of rounds two and three remain.\<close>

theorem history_capacity_witness:
  "appended NewParser [plain_round ''x'' (Finite 5) 1, plain_round ''x'' (Finite 5) 2,
      plain_round ''x'' (Finite 5) 3]
     = [\<lparr>Timestamp = 1, GPUs = [GPU_lit 0], CPUUsage = Finite 5\<rparr>,
        \<lparr>Timestamp = 2, GPUs = [GPU_lit 0], CPUUsage = Finite 5\<rparr>,
        \<lparr>Timestamp = 3, GPUs = [GPU_lit 0], CPUUsage = Finite 5\<rparr>] \<and>
   history (collect_rounds [plain_round ''x'' (Finite 5) 1, plain_round ''x'' (Finite 5) 2,
      plain_round ''x'' (Finite 5) 3]
              (NewCollector \<lparr>MaxHistory = 2, Interval = 0, ErrorCallback = False\<rparr>))
     = [\<lparr>Timestamp = 2, GPUs = [GPU_lit 0], CPUUsage = Finite 5\<rparr>,
        \<lparr>Timestamp = 3, GPUs = [GPU_lit 0], CPUUsage = Finite 5\<rparr>]"
  using history_capacity[of "\<lparr>MaxHistory = 2, Interval = 0, ErrorCallback = False\<rparr>"
      "[plain_round ''x'' (Finite 5) 1, plain_round ''x'' (Finite 5) 2,
      plain_round ''x'' (Finite 5) 3]"]
  by (simp add: appended_def map_filter_simps sample_plain_x NewCollector_fields)

section \<open>The latest sample\<close>

text \<open>
  C9. \<open>GetLatest\<close> fails with the error "no data available" exactly when the timeline is
  empty; otherwise it returns the last sample of the timeline, and right after a round
  that appended a sample it returns that sample.
\<close>

theorem latest_sample:
  "((GetLatest c = Inl NoDataAvailable) = (history c = [])) \<and>
   (history c \<noteq> [] \<longrightarrow> GetLatest c = Inr (last (history c))) \<and>
   (0 < maxHistory c \<longrightarrow> snd (sample (parser c) r) = Some d \<longrightarrow>
      GetLatest (fst (collect r c)) = Inr d)"
proof -
  have a: "(GetLatest c = Inl NoDataAvailable) = (history c = [])"
    by (simp add: GetLatest_def)
  have b: "GetLatest c = Inr (last (history c))" if "history c \<noteq> []" for c
    using that by (simp add: GetLatest_def last_conv_nth)
  have "GetLatest (fst (collect r c)) = Inr d"
    if pos: "0 < maxHistory c" and s: "snd (sample (parser c) r) = Some d"
  proof -
    let ?k = "Suc (length (history c)) - nat (maxHistory c)"
    have h: "history (fst (collect r c)) = drop ?k (history c @ [d])"
      using collect_stored[OF s pos] .
    have k: "?k \<le> length (history c)" using pos by linarith
    then have "drop ?k (history c @ [d]) = drop ?k (history c) @ [d]" by simp
    with h have "history (fst (collect r c)) \<noteq> [] \<and> last (history (fst (collect r c))) = d"
      by simp
    then show ?thesis using b[of "fst (collect r c)"] by simp
  qed
  with a b[of c] show ?thesis by blast
qed

theorem latest_sample_witness:
  "GetLatest (NewCollector \<lparr>MaxHistory = 2, Interval = 0, ErrorCallback = False\<rparr>)
     = Inl NoDataAvailable \<and>
   GetLatest (fst (collect (plain_round ''x'' (Finite 5) 1)
                (NewCollector \<lparr>MaxHistory = 2, Interval = 0, ErrorCallback = False\<rparr>)))
     = Inr \<lparr>Timestamp = 1, GPUs = [GPU_lit 0], CPUUsage = Finite 5\<rparr>"
  using latest_sample[of "NewCollector \<lparr>MaxHistory = 2, Interval = 0, ErrorCallback = False\<rparr>"
      "plain_round ''x'' (Finite 5) 1" "\<lparr>Timestamp = 1, GPUs = [GPU_lit 0], CPUUsage = Finite 5\<rparr>"]
  by (simp add: NewCollector_fields sample_plain_x)

section \<open>Changing the interval\<close>

text \<open>
  C10. \<open>SetInterval\<close> with a duration that is zero or negative returns the collector
  unchanged: interval, timeline, context, cancellations and started loops are all as
  before. With a positive duration the stored interval becomes that duration (and the
  timeline and the capacity stay).
\<close>

theorem SetInterval_effect:
  "(d \<le> 0 \<longrightarrow> SetInterval d c = c) \<and>
   (0 < d \<longrightarrow> interval (SetInterval d c) = d \<and> history (SetInterval d c) = history c \<and>
      maxHistory (SetInterval d c) = maxHistory c)"
  by (simp add: SetInterval_def Start_def Stop_def Let_def)

theorem SetInterval_effect_witness:
  "SetInterval 0 (Start (NewCollector \<lparr>MaxHistory = 2, Interval = 0, ErrorCallback = False\<rparr>))
     = Start (NewCollector \<lparr>MaxHistory = 2, Interval = 0, ErrorCallback = False\<rparr>) \<and>
   SetInterval (- Second) (Start (NewCollector \<lparr>MaxHistory = 2, Interval = 0, ErrorCallback = False\<rparr>))
     = Start (NewCollector \<lparr>MaxHistory = 2, Interval = 0, ErrorCallback = False\<rparr>) \<and>
   interval (SetInterval (2 * Second)
      (Start (NewCollector \<lparr>MaxHistory = 2, Interval = 0, ErrorCallback = False\<rparr>))) = 2 * Second"
  using SetInterval_effect[of 0 "Start (NewCollector \<lparr>MaxHistory = 2, Interval = 0, ErrorCallback = False\<rparr>)"]
    SetInterval_effect[of "- Second" "Start (NewCollector \<lparr>MaxHistory = 2, Interval = 0, ErrorCallback = False\<rparr>)"]
    SetInterval_effect[of "2 * Second" "Start (NewCollector \<lparr>MaxHistory = 2, Interval = 0, ErrorCallback = False\<rparr>)"]
  by (simp add: Second_def)

section \<open>The time window\<close>



text \<open>The negation of the most negative duration wraps to itself.\<close>

lemma wrap64_neg_min: "wrap64 (- (- (2 ^ 63))) = - (2 ^ 63)"
  by (simp add: wrap64_def)

lemma stats_window_filter:
  "history c \<noteq> [] \<Longrightarrow>
   statsHandler now (Some (Inr d)) c
     = Json (filter (\<lambda>s. now + wrap64 (- d) < Timestamp s) (history c))"
  by (simp add: statsHandler_def GetHistory_def Let_def)




text \<open>
  For the most negative duration the negation wraps and the cutoff lies \<open>2 ^ 63\<close>
  nanoseconds before the call, not after it.
\<close>

lemma stats_window_most_negative:
  "history c \<noteq> [] \<Longrightarrow>
   statsHandler now (Some (Inr (- (2 ^ 63)))) c
     = Json (filter (\<lambda>s. now - 2 ^ 63 < Timestamp s) (history c))"
  using stats_window_filter[of c now "- (2 ^ 63)"] wrap64_neg_min by simp

section \<open>The snapshot and the arrays it shares\<close>

text \<open>
  \<open>GetHistory_mem\<close> copies the structs of the history into a fresh array: the copy
  denotes the same timeline, and an assignment to an element of the copy leaves the
  timeline of the collector as it was.
\<close>

lemma GetHistory_mem_result:
  "GetHistory_mem h m =
     (\<lparr>array = next_free m, offset = 0, len = len h\<rparr>,
      m\<lparr>data_arrays := (data_arrays m)(next_free m := elems (data_arrays m (array h)) h),
        next_free := Suc (next_free m)\<rparr>)"
  if "array h < next_free m"
proof -
  have "length (elems (data_arrays m (array h)) h) \<le> len h" by (simp add: elems_def)
  then have "take (len h) (elems (data_arrays m (array h)) h) = elems (data_arrays m (array h)) h"
    by simp
  then show ?thesis using that
    by (simp add: GetHistory_mem_def make_data_def copy_data_def Let_def)
qed

lemma GetHistory_mem_snapshot:
  assumes "array h < next_free m" "GetHistory_mem h m = (hc, m')"
  shows "timeline m' hc = timeline m h" "timeline m' h = timeline m h"
proof -
  have "take (len h) (elems (data_arrays m (array h)) h) = elems (data_arrays m (array h)) h"
    by (simp add: elems_def)
  then have e: "elems (elems (data_arrays m (array h)) h) \<lparr>array = next_free m, offset = 0, len = len h\<rparr>
     = elems (data_arrays m (array h)) h"
    by (simp add: elems_def)
  show "timeline m' hc = timeline m h"
    using assms e GetHistory_mem_result[OF assms(1)]
    by (auto simp: timeline_def read_data_def)
  show "timeline m' h = timeline m h"
    using assms GetHistory_mem_result[OF assms(1)]
    by (auto simp: timeline_def read_data_def)
qed

lemma set_data_frame:
  assumes "array h < next_free m" "GetHistory_mem h m = (hc, m1)" "set_data hc i v m1 = Some m2"
  shows "timeline m2 h = timeline m h"
proof -
  have hc: "array hc = next_free m" and ne: "array hc \<noteq> array h"
    using assms(1,2) GetHistory_mem_result[OF assms(1)] by auto
  have "gpu_arrays m2 = gpu_arrays m1" "data_arrays m2 (array h) = data_arrays m1 (array h)"
    using assms(3) ne by (auto simp: set_data_def split: if_splits)
  then have "timeline m2 h = timeline m1 h" by (simp add: timeline_def read_data_def)
  then show ?thesis using GetHistory_mem_snapshot(2)[OF assms(1,2)] by simp
qed

text \<open>
  C3. The copy is not independent below its elements. In the memory with one sample and
  one device at 45 degrees, a caller takes the snapshot and assigns a device record
  through it, \<^verbatim>\<open>historyCopy[0].GPUs[0] = g\<close> with 999 degrees: the snapshot denoted the
  timeline, the assignment is in range, and afterwards the timeline of the collector
  itself reads 999 degrees where it read 45. The structs were copied with the headers of
  their \<^verbatim>\<open>GPUs\<close> slices, so the copy and the timeline share the device arrays.
\<close>

theorem GetHistory_shares_device_arrays:
  "(case GetHistory_mem one_sample_history one_sample_memory of
      (historyCopy, m1) \<Rightarrow>
        timeline m1 historyCopy = timeline one_sample_memory one_sample_history \<and>
        (case set_gpu historyCopy 0 0 ((GPU_lit 0)\<lparr>Temperature := Finite 999\<rparr>) m1 of
           None \<Rightarrow> False
         | Some m2 \<Rightarrow>
             timeline one_sample_memory one_sample_history
               = [\<lparr>Timestamp = 1, GPUs = [(GPU_lit 0)\<lparr>Temperature := Finite 45\<rparr>], CPUUsage = Finite 0\<rparr>] \<and>
             timeline m2 one_sample_history
               = [\<lparr>Timestamp = 1, GPUs = [(GPU_lit 0)\<lparr>Temperature := Finite 999\<rparr>], CPUUsage = Finite 0\<rparr>]))"
  by (simp add: GetHistory_mem_def make_data_def copy_data_def set_gpu_def timeline_def
      read_data_def elems_def one_sample_memory_def one_sample_history_def Let_def)

section \<open>The parser\<close>

subsection \<open>The sections of an output\<close>

lemma foldl_skip:
  "foldl (\<lambda>a x. if P x then f a x else a) a xs = foldl f a (filter P xs)"
  by (induction xs arbitrary: a) simp_all

lemma splitByGPU_device_lines:
  "splitByGPU p output =
     (let sections = foldl (\<lambda>sections line. AList.update (device_index p line) line sections) []
                        (device_lines p output)
      in if sections = [] then [(0, output)] else sections)"
  unfolding splitByGPU_def device_lines_def device_index_def Let_def
  using foldl_skip[of "\<lambda>line. length (FindStringSubmatch (deviceIDRegex p) line) > 1"
      "\<lambda>sections line. AList.update (fst (Atoi (FindStringSubmatch (deviceIDRegex p) line ! 1))) line sections"
      "[]" "Split output CHR 0x0A"]
  by simp

lemma splitByGPU_nonempty: "splitByGPU p output \<noteq> []"
  by (auto simp: splitByGPU_def Let_def)

lemma distinct_foldl_update:
  "distinct (map fst acc) \<Longrightarrow>
   distinct (map fst (foldl (\<lambda>sections line. AList.update (k line) line sections) acc ls))"
  by (induction ls arbitrary: acc) (simp_all add: distinct_update)

lemma splitByGPU_distinct: "distinct (map fst (splitByGPU p output))"
  unfolding splitByGPU_device_lines Let_def
  using distinct_foldl_update[of "[]" "device_index p" "device_lines p output"] by simp

lemma splitByGPU_none:
  "device_lines p output = [] \<Longrightarrow> splitByGPU p output = [(0, output)]"
  by (simp add: splitByGPU_device_lines)

lemma splitByGPU_three:
  assumes "device_lines p output = [l1, l2, l3]"
    and "distinct [device_index p l1, device_index p l2, device_index p l3]"
  shows "splitByGPU p output
         = [(device_index p l1, l1), (device_index p l2, l2), (device_index p l3, l3)]"
  using assms by (simp add: splitByGPU_device_lines)

subsection \<open>Orders of iteration\<close>

lemma visits_nonempty: "visits_each_once ord \<Longrightarrow> m \<noteq> [] \<Longrightarrow> ord m \<noteq> []"
  unfolding visits_each_once_def by (metis mset_zero_iff)

lemma visits_single: "visits_each_once ord \<Longrightarrow> ord [x] = [x]"
  unfolding visits_each_once_def by (metis mset_single_iff_right mset.simps(1) mset.simps(2))

lemma visits_set: "visits_each_once ord \<Longrightarrow> set (ord m) = set m"
  unfolding visits_each_once_def by (metis set_mset_mset)

lemma visits_length: "visits_each_once ord \<Longrightarrow> length (ord m) = length m"
  unfolding visits_each_once_def by (metis size_mset)

lemma visits_distinct: "visits_each_once ord \<Longrightarrow> distinct (map f m) \<Longrightarrow> distinct (map f (ord m))"
  unfolding visits_each_once_def by (metis mset_map mset_eq_imp_distinct_iff)

subsection \<open>The result of the parser\<close>

lemma parse_result:
  "output \<noteq> [] \<Longrightarrow>
   ParseRocmSMIOutput p ord now output =
     (let gpus = map (\<lambda>(gid, section).
                   parse_section p output (vram_bytes_map (vramTotalRegex p) output)
                     (vram_bytes_map (vramUsedRegex p) output) gid section)
                 (ord (splitByGPU p output))
      in if gpus = [] then Inl NoGPUDataFound
         else Inr \<lparr>Timestamp = now, GPUs = gpus, CPUUsage = Finite 0\<rparr>)"
  by (simp add: ParseRocmSMIOutput_def Let_def)

lemma parse_ok:
  assumes "output \<noteq> []" "visits_each_once ord"
  shows "ParseRocmSMIOutput p ord now output =
     Inr \<lparr>Timestamp = now,
          GPUs = map (\<lambda>(gid, section).
                   parse_section p output (vram_bytes_map (vramTotalRegex p) output)
                     (vram_bytes_map (vramUsedRegex p) output) gid section)
                 (ord (splitByGPU p output)),
          CPUUsage = Finite 0\<rparr>"
  using assms visits_nonempty[OF assms(2) splitByGPU_nonempty[of p "output"]]
  by (simp add: parse_result Let_def)

lemma parse_section_fields:
  "ID (parse_section p output tm um gid section) = gid"
  "Temperature (parse_section p output tm um gid section) = field_of (tempRegex p) 1 1 section"
  "Power (parse_section p output tm um gid section) = field_of (powerRegex p) 1 1 section"
  "GPUUsage (parse_section p output tm um gid section) = field_of (vramRegex p) 2 2 section"
  "FanSpeed (parse_section p output tm um gid section) = field_of (fanRegex p) 1 1 section"
  "VRAMUsage (parse_section p output tm um gid section)
     = (case map_of um gid of Some usedGB \<Rightarrow> usedGB | None \<Rightarrow> field_of (vramRegex p) 2 1 section)"
  "VRAMTotal (parse_section p output tm um gid section)
     = (case map_of tm gid of Some totalGB \<Rightarrow> totalGB | None \<Rightarrow> Finite 0)"
  by (simp_all add: parse_section_def field_of_def Let_def GPU_lit_def split: option.splits)

subsection \<open>The VRAM maps\<close>

lemma map_of_foldl_update:
  "map_of (foldl (\<lambda>m x. if P x then AList.update (k x) (v x) m else m) [] xs) i
   = (if filter (\<lambda>x. P x \<and> k x = i) xs = [] then None
      else Some (v (last (filter (\<lambda>x. P x \<and> k x = i) xs))))"
proof (induction xs rule: rev_induct)
  case Nil
  then show ?case by simp
next
  case (snoc x xs)
  then show ?case by (simp add: update_conv')
qed

lemma vram_bytes_map_last:
  "map_of (vram_bytes_map re output) i
   = map_option (\<lambda>n. fdiv_const (fst (ParseFloat n)) (1024 * 1024 * 1024)) (last_count re output i)"
proof -
  let ?ms = "filter (\<lambda>m. length m > 2 \<and> fst (Atoi (m ! 1)) = i) (FindAllStringSubmatch re output)"
  have "last_count re output i = (if ?ms = [] then None else Some (last ?ms ! 2))"
    by (simp add: last_count_def split: list.splits)
  then show ?thesis
    unfolding vram_bytes_map_def
    using map_of_foldl_update[of "\<lambda>m. length m > 2" "\<lambda>m. fst (Atoi (m ! 1))"
      "\<lambda>m. fdiv_const (fst (ParseFloat (m ! 2))) (1024 * 1024 * 1024)"
      "FindAllStringSubmatch re output" i]
    by simp
qed

subsection \<open>No field the parser fills is NaN\<close>






subsection \<open>Empty and non-empty outputs\<close>

text \<open>
  C4. The parser returns the error for the empty output exactly when the output is empty.
  \<open>splitByGPU\<close> never returns an empty map, so for an output that is not empty the parser
  succeeds with at least one device record, one for each section, and never returns the
  error "no GPU data found"; when no line of the output begins with an integer token the
  result has the one record of device 0, read from the whole output. (The order of the
  \<^verbatim>\<open>range\<close> loop is any order that visits each section once.)
\<close>

theorem parse_fails_only_on_empty:
  "ParseRocmSMIOutput p ord now [] = Inl EmptyOutput \<and>
   ((ParseRocmSMIOutput p ord now output = Inl EmptyOutput) = (output = [])) \<and>
   splitByGPU p output \<noteq> [] \<and>
   (visits_each_once ord \<longrightarrow> output \<noteq> [] \<longrightarrow>
      (\<exists>d. ParseRocmSMIOutput p ord now output = Inr d \<and> GPUs d \<noteq> [] \<and>
           length (GPUs d) = length (splitByGPU p output))) \<and>
   (visits_each_once ord \<longrightarrow> ParseRocmSMIOutput p ord now output \<noteq> Inl NoGPUDataFound) \<and>
   (visits_each_once ord \<longrightarrow> output \<noteq> [] \<longrightarrow> device_lines p output = [] \<longrightarrow>
      ParseRocmSMIOutput p ord now output
        = Inr \<lparr>Timestamp = now,
               GPUs = [parse_section p output (vram_bytes_map (vramTotalRegex p) output)
                         (vram_bytes_map (vramUsedRegex p) output) 0 output],
               CPUUsage = Finite 0\<rparr>)"
proof -
  have a: "ParseRocmSMIOutput p ord now [] = Inl EmptyOutput"
    by (simp add: ParseRocmSMIOutput_def)
  have b: "(ParseRocmSMIOutput p ord now output = Inl EmptyOutput) = (output = [])"
    by (cases "output = []") (simp_all add: ParseRocmSMIOutput_def Let_def)
  have c: "\<exists>d. ParseRocmSMIOutput p ord now output = Inr d \<and> GPUs d \<noteq> [] \<and>
           length (GPUs d) = length (splitByGPU p output)"
    if "visits_each_once ord" "output \<noteq> []"
    using parse_ok[OF that(2,1), of p now] visits_nonempty[OF that(1) splitByGPU_nonempty[of p "output"]]
      visits_length[OF that(1), of "splitByGPU p output"]
    by simp
  have d: "ParseRocmSMIOutput p ord now output \<noteq> Inl NoGPUDataFound" if "visits_each_once ord"
  proof (cases "output = []")
    case True
    then show ?thesis using a by simp
  next
    case False
    then show ?thesis using c[OF that] by auto
  qed
  have e: "ParseRocmSMIOutput p ord now output
        = Inr \<lparr>Timestamp = now,
               GPUs = [parse_section p output (vram_bytes_map (vramTotalRegex p) output)
                         (vram_bytes_map (vramUsedRegex p) output) 0 output],
               CPUUsage = Finite 0\<rparr>"
    if "visits_each_once ord" "output \<noteq> []" "device_lines p output = []"
    using parse_ok[OF that(2,1), of p now] splitByGPU_none[OF that(3)] visits_single[OF that(1)]
    by simp
  show ?thesis using a b c d e splitByGPU_nonempty[of p "output"] by blast
qed

lemma visits_id: "visits_each_once (\<lambda>m. m)"
  by (simp add: visits_each_once_def)

text \<open>The order that starts at the second entry of the map and wraps around.\<close>

lemma visits_rotate: "visits_each_once (rotate 1)"
proof -
  have "mset (rotate1 m) = mset m" for m :: "(int \<times> string) list"
    by (cases m) simp_all
  then show ?thesis by (simp add: visits_each_once_def)
qed

lemma device_lines_x: "device_lines NewParser ''x'' = []"
  by code_simp

lemma parse_x:
  "ParseRocmSMIOutput NewParser (\<lambda>m. m) 7 ''x''
     = Inr \<lparr>Timestamp = 7, GPUs = [GPU_lit 0], CPUUsage = Finite 0\<rparr>"
  by code_simp

theorem parse_fails_only_on_empty_witness:
  "ParseRocmSMIOutput NewParser (\<lambda>m. m) 7 [] = Inl EmptyOutput \<and>
   ParseRocmSMIOutput NewParser (\<lambda>m. m) 7 ''x''
     = Inr \<lparr>Timestamp = 7, GPUs = [GPU_lit 0], CPUUsage = Finite 0\<rparr> \<and>
   device_lines NewParser ''x'' = [] \<and>
   visits_each_once (\<lambda>m. m)"
  using parse_fails_only_on_empty[of NewParser "\<lambda>m. m" 7 "''x''"] visits_id device_lines_x parse_x
  by simp

subsection \<open>The example of the specification\<close>

lemma example_sections: "splitByGPU NewParser example_text = [(0, example_line)]"
  by code_simp

lemma example_device:
  "parse_section NewParser example_text (vram_bytes_map (vramTotalRegex NewParser) example_text)
     (vram_bytes_map (vramUsedRegex NewParser) example_text) 0 example_line
   = (GPU_lit 0)\<lparr>Power := Finite 120, VRAMUsage := Finite 50, GPUUsage := Finite 80\<rparr>"
  by code_simp

lemma celsius_sections: "splitByGPU NewParser celsius_text = [(0, celsius_line)]"
  by code_simp

lemma celsius_device:
  "parse_section NewParser celsius_text (vram_bytes_map (vramTotalRegex NewParser) celsius_text)
     (vram_bytes_map (vramUsedRegex NewParser) celsius_text) 0 celsius_line
   = (GPU_lit 0)\<lparr>Temperature := Finite 45, Power := Finite 120, VRAMUsage := Finite 50,
                    GPUUsage := Finite 80\<rparr>"
  by code_simp

text \<open>
  C5 (as amended). The literal text \<^verbatim>\<open>0  45.0c  120.0W  ...  50%  80%\<close> followed by a
  newline gives a sample with exactly one device, of index 0, with power 120, VRAM usage
  50 (from the percentage), GPU usage 80, and temperature 0: the token \<^verbatim>\<open>45.0c\<close> does
  not end in the degree sign and \<^verbatim>\<open>C\<close> that the temperature pattern asks for, so the
  field keeps its zero value. With the degree sign and \<^verbatim>\<open>C\<close> in place of \<^verbatim>\<open>c\<close> the
  temperature is 45.
\<close>

theorem parse_example:
  assumes "visits_each_once ord"
  shows "ParseRocmSMIOutput NewParser ord now example_text
           = Inr \<lparr>Timestamp = now,
                  GPUs = [(GPU_lit 0)\<lparr>Power := Finite 120, VRAMUsage := Finite 50, GPUUsage := Finite 80\<rparr>],
                  CPUUsage = Finite 0\<rparr> \<and>
         Temperature ((GPU_lit 0)\<lparr>Power := Finite 120, VRAMUsage := Finite 50, GPUUsage := Finite 80\<rparr>)
           = Finite 0 \<and>
         ParseRocmSMIOutput NewParser ord now celsius_text
           = Inr \<lparr>Timestamp = now,
                  GPUs = [(GPU_lit 0)\<lparr>Temperature := Finite 45, Power := Finite 120, VRAMUsage := Finite 50,
                    GPUUsage := Finite 80\<rparr>],
                  CPUUsage = Finite 0\<rparr>"
proof -
  have a: "example_text \<noteq> []" "celsius_text \<noteq> []"
    by (simp_all add: example_text_def celsius_text_def)
  show ?thesis
    using parse_ok[OF a(1) assms, of NewParser now] parse_ok[OF a(2) assms, of NewParser now]
      visits_single[OF assms]
    by (simp add: example_sections example_device celsius_sections celsius_device GPU_lit_def)
qed

theorem parse_example_witness:
  "ParseRocmSMIOutput NewParser (\<lambda>m. m) 7 example_text
     = Inr \<lparr>Timestamp = 7,
            GPUs = [(GPU_lit 0)\<lparr>Power := Finite 120, VRAMUsage := Finite 50, GPUUsage := Finite 80\<rparr>],
            CPUUsage = Finite 0\<rparr> \<and>
   ParseRocmSMIOutput NewParser (\<lambda>m. m) 7 celsius_text
     = Inr \<lparr>Timestamp = 7,
            GPUs = [(GPU_lit 0)\<lparr>Temperature := Finite 45, Power := Finite 120, VRAMUsage := Finite 50,
                    GPUUsage := Finite 80\<rparr>],
            CPUUsage = Finite 0\<rparr>"
  using parse_example[OF visits_id, of 7] by simp

text \<open>On the literal text the temperature of the one device is 0, not 45.\<close>

theorem parse_example_counterexample:
  "example_text = ''0  45.0c  120.0W  ...  50%  80%\<newline>'' \<and>
   (case ParseRocmSMIOutput NewParser (\<lambda>m. m) 0 example_text of
      Inl e \<Rightarrow> False
    | Inr d \<Rightarrow> map Temperature (GPUs d) = [Finite 0] \<and> map Temperature (GPUs d) \<noteq> [Finite 45])"
  by code_simp

subsection \<open>Three device lines\<close>

text \<open>
  What holds of three device lines with different indices: the parser returns exactly
  three device records, one for each of the lines, each with the index of its line and
  the temperature, power, GPU usage and (unless a detailed VRAM line overrides it) VRAM
  usage read from its own line; the list holds them in the order in which the map was
  visited.
\<close>

lemma three_device_records:
  assumes "visits_each_once ord" and "output \<noteq> []"
    and "device_lines p output = [l1, l2, l3]"
    and "distinct [device_index p l1, device_index p l2, device_index p l3]"
  shows "\<exists>d. ParseRocmSMIOutput p ord now output = Inr d \<and> length (GPUs d) = 3 \<and>
           mset (GPUs d) = mset [device_of p output l1, device_of p output l2, device_of p output l3] \<and>
           (\<forall>l \<in> set [l1, l2, l3].
              ID (device_of p output l) = device_index p l \<and>
              Temperature (device_of p output l) = field_of (tempRegex p) 1 1 l \<and>
              Power (device_of p output l) = field_of (powerRegex p) 1 1 l \<and>
              GPUUsage (device_of p output l) = field_of (vramRegex p) 2 2 l \<and>
              VRAMUsage (device_of p output l)
                = (case last_count (vramUsedRegex p) output (device_index p l) of
                     Some n \<Rightarrow> fdiv_const (fst (ParseFloat n)) (1024 * 1024 * 1024)
                   | None \<Rightarrow> field_of (vramRegex p) 2 1 l))"
proof -
  let ?f = "\<lambda>(gid, section). parse_section p output (vram_bytes_map (vramTotalRegex p) output)
                     (vram_bytes_map (vramUsedRegex p) output) gid section"
  let ?secs = "[(device_index p l1, l1), (device_index p l2, l2), (device_index p l3, l3)]"
  have s: "splitByGPU p output = ?secs" using splitByGPU_three[OF assms(3,4)] .
  have p: "ParseRocmSMIOutput p ord now output
           = Inr \<lparr>Timestamp = now, GPUs = map ?f (ord ?secs), CPUUsage = Finite 0\<rparr>"
    using parse_ok[OF assms(2,1), of p now] s by simp
  have "mset (ord ?secs) = mset ?secs" using assms(1) by (simp add: visits_each_once_def)
  then have "mset (map ?f (ord ?secs)) = mset (map ?f ?secs)" by (metis mset_map)
  then have m: "mset (map ?f (ord ?secs))
                = mset [device_of p output l1, device_of p output l2, device_of p output l3]"
    by (simp add: device_of_def)
  have l: "length (map ?f (ord ?secs)) = 3" using visits_length[OF assms(1), of ?secs] by simp
  have f: "ID (device_of p output l) = device_index p l \<and>
              Temperature (device_of p output l) = field_of (tempRegex p) 1 1 l \<and>
              Power (device_of p output l) = field_of (powerRegex p) 1 1 l \<and>
              GPUUsage (device_of p output l) = field_of (vramRegex p) 2 2 l \<and>
              VRAMUsage (device_of p output l)
                = (case last_count (vramUsedRegex p) output (device_index p l) of
                     Some n \<Rightarrow> fdiv_const (fst (ParseFloat n)) (1024 * 1024 * 1024)
                   | None \<Rightarrow> field_of (vramRegex p) 2 1 l)" for l
    by (simp add: device_of_def parse_section_fields vram_bytes_map_last split: option.splits)
  show ?thesis using p m l f by simp
qed

text \<open>
  C6. The list of devices is not ordered by device index. On the three device lines of
  devices 0, 1 and 2, with the map visited from its second entry on and around, the
  parser returns three records with the fields of their lines, in the order 1, 2, 0.
  The loop that builds the list ranges over a map and nothing sorts the list afterwards.
\<close>

theorem three_devices_unordered:
  "(case ParseRocmSMIOutput NewParser (rotate 1) 0 three_lines of
      Inl e \<Rightarrow> False
    | Inr d \<Rightarrow>
        GPUs d = [(GPU_lit 1)\<lparr>Temperature := Finite (101 / 2), Power := Finite 130,
                               VRAMUsage := Finite 60, GPUUsage := Finite 90\<rparr>,
                  (GPU_lit 2)\<lparr>Temperature := Finite 55, Power := Finite 140,
                               VRAMUsage := Finite 70, GPUUsage := Finite 100\<rparr>,
                  (GPU_lit 0)\<lparr>Temperature := Finite 45, Power := Finite 120,
                               VRAMUsage := Finite 50, GPUUsage := Finite 80\<rparr>] \<and>
        map ID (GPUs d) = [1, 2, 0] \<and> \<not> sorted (map ID (GPUs d)))"
  by code_simp

subsection \<open>Detailed VRAM figures\<close>

text \<open>
  C7 (as amended). In every sample the parser returns, the devices have different
  indices, one for each section, and for every device: if the output has matches of the
  used-bytes pattern for its index, its VRAM usage is the byte count of the last of them,
  read as a \<^verbatim>\<open>float64\<close> (the nearest one, the infinity beyond the range) and divided by
  \<open>2 ^ 30\<close>, whatever the percentages of its line say; without such a match it is the
  first of the two trailing percentages of its section (zero when there is none). In the
  same way the VRAM total comes from the last match of the total-bytes pattern, and is
  zero without one.
\<close>

theorem vram_bytes_override:
  assumes "visits_each_once ord" and "ParseRocmSMIOutput p ord now output = Inr d"
  shows "distinct (map ID (GPUs d)) \<and>
         ID ` set (GPUs d) = fst ` set (splitByGPU p output) \<and>
         (\<forall>g \<in> set (GPUs d). \<exists>section.
            (ID g, section) \<in> set (splitByGPU p output) \<and>
            VRAMUsage g = (case last_count (vramUsedRegex p) output (ID g) of
                             Some n \<Rightarrow> fdiv_const (fst (ParseFloat n)) (1024 * 1024 * 1024)
                           | None \<Rightarrow> field_of (vramRegex p) 2 1 section) \<and>
            VRAMTotal g = (case last_count (vramTotalRegex p) output (ID g) of
                             Some n \<Rightarrow> fdiv_const (fst (ParseFloat n)) (1024 * 1024 * 1024)
                           | None \<Rightarrow> Finite 0))"
proof -
  let ?tm = "vram_bytes_map (vramTotalRegex p) output"
  let ?um = "vram_bytes_map (vramUsedRegex p) output"
  let ?f = "\<lambda>(gid, section). parse_section p output ?tm ?um gid section"
  have ne: "output \<noteq> []" using assms(2) by (auto simp: ParseRocmSMIOutput_def)
  have g: "GPUs d = map ?f (ord (splitByGPU p output))"
    using parse_ok[OF ne assms(1), of p now] assms(2) by simp
  have ids: "map ID (GPUs d) = map fst (ord (splitByGPU p output))"
    unfolding g by (simp add: parse_section_fields(1) case_prod_unfold)
  have d1: "distinct (map ID (GPUs d))"
    unfolding ids using visits_distinct[OF assms(1) splitByGPU_distinct] .
  have "set (map ID (GPUs d)) = fst ` set (ord (splitByGPU p output))"
    unfolding ids by simp
  then have d2: "ID ` set (GPUs d) = fst ` set (splitByGPU p output)"
    using visits_set[OF assms(1)] by simp
  have d3: "\<exists>section.
            (ID g, section) \<in> set (splitByGPU p output) \<and>
            VRAMUsage g = (case last_count (vramUsedRegex p) output (ID g) of
                             Some n \<Rightarrow> fdiv_const (fst (ParseFloat n)) (1024 * 1024 * 1024)
                           | None \<Rightarrow> field_of (vramRegex p) 2 1 section) \<and>
            VRAMTotal g = (case last_count (vramTotalRegex p) output (ID g) of
                             Some n \<Rightarrow> fdiv_const (fst (ParseFloat n)) (1024 * 1024 * 1024)
                           | None \<Rightarrow> Finite 0)" if "g \<in> set (GPUs d)" for g
  proof -
    from that obtain gid sec where
      in_s: "(gid, sec) \<in> set (splitByGPU p output)"
      and ge: "g = parse_section p output ?tm ?um gid sec"
      unfolding g using visits_set[OF assms(1)] by auto
    show ?thesis
      apply (rule exI[of _ sec])
      using in_s unfolding ge
      by (simp add: parse_section_fields vram_bytes_map_last split: option.splits)
  qed
  show ?thesis using d1 d2 d3 by blast
qed

text \<open>
  The claim as first stated fails where a device has two used-bytes lines, since the
  count of the first is a match for the device and is not the value; and where the
  count is not a \<^verbatim>\<open>float64\<close>: for \<open>2 ^ 53 + 1\<close> bytes the usage is \<open>2 ^ 53 / 2 ^ 30\<close>.
\<close>

theorem vram_bytes_override_counterexample:
  "map tl (FindAllStringSubmatch (vramUsedRegex NewParser) twice_lines)
     = [[''0'', ''1073741824''], [''0'', ''2147483648'']] \<and>
   (case ParseRocmSMIOutput NewParser (\<lambda>m. m) 0 twice_lines of
      Inl e \<Rightarrow> False
    | Inr d \<Rightarrow> map VRAMUsage (GPUs d) = [Finite 2] \<and>
               map VRAMUsage (GPUs d) \<noteq> [Finite (1073741824 / 2 ^ 30)]) \<and>
   (case ParseRocmSMIOutput NewParser (\<lambda>m. m) 0 big_lines of
      Inl e \<Rightarrow> False
    | Inr d \<Rightarrow> map VRAMUsage (GPUs d) = [Finite 8388608] \<and>
               map VRAMUsage (GPUs d) \<noteq> [Finite (9007199254740993 / 2 ^ 30)])"
  by code_simp

text \<open>
  Device 0 with detailed figures of one and two gigabytes, device 1 without: the first
  reads 1 and 2, the second keeps the 60 percent of its line.
\<close>

lemma vram_parse:
  "ParseRocmSMIOutput NewParser (\<lambda>m. m) 0 vram_lines
     = Inr \<lparr>Timestamp = 0,
            GPUs = [(GPU_lit 0)\<lparr>Temperature := Finite 45, Power := Finite 120, VRAMUsage := Finite 1,
                               VRAMTotal := Finite 2, GPUUsage := Finite 80\<rparr>,
                    (GPU_lit 1)\<lparr>Temperature := Finite (101 / 2), Power := Finite 130,
                               VRAMUsage := Finite 60, GPUUsage := Finite 90\<rparr>],
            CPUUsage = Finite 0\<rparr>"
  by code_simp

lemma vram_last_count:
  "last_count (vramUsedRegex NewParser) vram_lines 0 = Some ''1073741824''"
  "last_count (vramTotalRegex NewParser) vram_lines 0 = Some ''2147483648''"
  "last_count (vramUsedRegex NewParser) vram_lines 1 = None"
  "last_count (vramTotalRegex NewParser) vram_lines 1 = None"
  by code_simp+

lemma vram_values:
  "fdiv_const (fst (ParseFloat ''1073741824'')) (1024 * 1024 * 1024) = Finite 1"
  "fdiv_const (fst (ParseFloat ''2147483648'')) (1024 * 1024 * 1024) = Finite 2"
  "field_of (vramRegex NewParser) 2 1 line1 = Finite 60"
  by code_simp+

theorem vram_bytes_override_witness:
  "ParseRocmSMIOutput NewParser (\<lambda>m. m) 0 vram_lines
     = Inr \<lparr>Timestamp = 0,
            GPUs = [(GPU_lit 0)\<lparr>Temperature := Finite 45, Power := Finite 120, VRAMUsage := Finite 1,
                               VRAMTotal := Finite 2, GPUUsage := Finite 80\<rparr>,
                    (GPU_lit 1)\<lparr>Temperature := Finite (101 / 2), Power := Finite 130,
                               VRAMUsage := Finite 60, GPUUsage := Finite 90\<rparr>],
            CPUUsage = Finite 0\<rparr> \<and>
   last_count (vramUsedRegex NewParser) vram_lines 0 = Some ''1073741824'' \<and>
   last_count (vramTotalRegex NewParser) vram_lines 0 = Some ''2147483648'' \<and>
   last_count (vramUsedRegex NewParser) vram_lines 1 = None \<and>
   fdiv_const (fst (ParseFloat ''1073741824'')) (1024 * 1024 * 1024) = Finite 1 \<and>
   fdiv_const (fst (ParseFloat ''2147483648'')) (1024 * 1024 * 1024) = Finite 2 \<and>
   field_of (vramRegex NewParser) 2 1 line1 = Finite 60"
  using vram_bytes_override[OF visits_id vram_parse] vram_last_count vram_values vram_parse
  by simp

section \<open>Validation\<close>









end
